theory Spec2Isabelle
  imports Main "HOL-Library.List_Lexorder" "HOL-Library.Char_ord"
begin

section \<open>Python values and strings\<close>

text \<open>
  The values the converters pass around: what \<open>json.loads\<close> and \<open>yaml.safe_load\<close>
  return and what the generators consume. A dictionary keeps its insertion order, so it
  is an association list; its keys are the field names. A float is carried by its
  \<open>repr\<close> text only (no floating-point arithmetic is modelled). Characters outside
  ASCII are carried as their UTF-8 bytes.
\<close>

datatype pyval =
    PNone
  | PBool bool
  | PInt int
  | PFloat string
  | PStr string
  | PList "pyval list"
  | PDict "(string \<times> pyval) list"

text \<open>The exceptions the source distinguishes in its \<open>except\<close> clauses.\<close>

datatype pyexc =
    JSONDecodeError string
  | XMLParseError string
  | YAMLError string
  | OtherException string

fun exc_text :: "pyexc \<Rightarrow> string" where
  "exc_text (JSONDecodeError m) = m"
| "exc_text (XMLParseError m) = m"
| "exc_text (YAMLError m) = m"
| "exc_text (OtherException m) = m"

text \<open>An \<open>xml.etree.ElementTree.Element\<close>: tag, text (\<open>None\<close> when absent), children.\<close>

datatype element = Element (el_tag: string) (el_text: "string option") (el_children: "element list")

subsection \<open>String methods used by the source\<close>

text \<open>
  \<open>str.strip()\<close> removes the white space at both ends. The white-space characters of
  Python are the ASCII ones (9 to 13, 28 to 32) and U+0085, U+00A0, U+1680, U+2000 to
  U+200A, U+2028, U+2029, U+202F, U+205F and U+3000, which in UTF-8 are sequences of two
  or three bytes.
\<close>

definition py_isspace :: "char \<Rightarrow> bool" where
  "py_isspace c = (let n = of_char c :: nat in (9 \<le> n \<and> n \<le> 13) \<or> (28 \<le> n \<and> n \<le> 32))"

definition space2 :: "char \<Rightarrow> char \<Rightarrow> bool" where
  "space2 a b = (a = CHR 0xC2 \<and> (b = CHR 0x85 \<or> b = CHR 0xA0))"

definition space3 :: "char \<Rightarrow> char \<Rightarrow> char \<Rightarrow> bool" where
  "space3 a b c =
     ((a = CHR 0xE1 \<and> b = CHR 0x9A \<and> c = CHR 0x80)
      \<or> (a = CHR 0xE2 \<and> b = CHR 0x80
          \<and> ((0x80 \<le> (of_char c :: nat) \<and> (of_char c :: nat) \<le> 0x8A)
              \<or> c = CHR 0xA8 \<or> c = CHR 0xA9 \<or> c = CHR 0xAF))
      \<or> (a = CHR 0xE2 \<and> b = CHR 0x81 \<and> c = CHR 0x9F)
      \<or> (a = CHR 0xE3 \<and> b = CHR 0x80 \<and> c = CHR 0x80))"

fun py_lstrip :: "string \<Rightarrow> string" where
  "py_lstrip (a # b # c # s) =
     (if py_isspace a then py_lstrip (b # c # s)
      else if space2 a b then py_lstrip (c # s)
      else if space3 a b c then py_lstrip s
      else a # b # c # s)"
| "py_lstrip [a, b] =
     (if py_isspace a then py_lstrip [b] else if space2 a b then [] else [a, b])"
| "py_lstrip [a] = (if py_isspace a then [] else [a])"
| "py_lstrip [] = []"

text \<open>The same from the right end, on the reversed text.\<close>

fun rstrip_rev :: "string \<Rightarrow> string" where
  "rstrip_rev (c # b # a # s) =
     (if py_isspace c then rstrip_rev (b # a # s)
      else if space2 b c then rstrip_rev (a # s)
      else if space3 a b c then rstrip_rev s
      else c # b # a # s)"
| "rstrip_rev [c, b] =
     (if py_isspace c then rstrip_rev [b] else if space2 b c then [] else [c, b])"
| "rstrip_rev [c] = (if py_isspace c then [] else [c])"
| "rstrip_rev [] = []"

definition py_strip :: "string \<Rightarrow> string" where
  "py_strip s = rev (rstrip_rev (rev (py_lstrip s)))"

definition startswith :: "string \<Rightarrow> string \<Rightarrow> bool" where
  "startswith s p = (take (length p) s = p)"

definition endswith :: "string \<Rightarrow> string \<Rightarrow> bool" where
  "endswith s p = (length p \<le> length s \<and> drop (length s - length p) s = p)"

fun py_in :: "string \<Rightarrow> string \<Rightarrow> bool" where
  "py_in p [] = (p = [])"
| "py_in p (c # cs) = (startswith (c # cs) p \<or> py_in p cs)"

definition py_count :: "string \<Rightarrow> char \<Rightarrow> nat" where
  "py_count s c = length (filter (\<lambda>x. x = c) s)"

fun py_split :: "string \<Rightarrow> char \<Rightarrow> string list" where
  "py_split [] d = [[]]"
| "py_split (c # cs) d =
     (if c = d then [] # py_split cs d
      else (case py_split cs d of
              [] \<Rightarrow> [[c]]
            | w # ws \<Rightarrow> (c # w) # ws))"

fun py_replace :: "string \<Rightarrow> char \<Rightarrow> char \<Rightarrow> string" where
  "py_replace s a b = map (\<lambda>c. if c = a then b else c) s"

text \<open>\<open>d[k] = v\<close>: an existing key keeps its place, a new key goes last.\<close>

fun dict_set :: "(string \<times> 'v) list \<Rightarrow> string \<Rightarrow> 'v \<Rightarrow> (string \<times> 'v) list" where
  "dict_set [] k v = [(k, v)]"
| "dict_set ((k', v') # kvs) k v =
     (if k' = k then (k, v) # kvs else (k', v') # dict_set kvs k v)"

section \<open>The libraries the source calls\<close>

text \<open>
  The source delegates decoding and table handling to \<open>json\<close>, \<open>pandas\<close>,
  \<open>xml.etree.ElementTree\<close> and \<open>yaml\<close>. Their entry points are parameters of the
  model: each returns \<open>Inr\<close> of its result or \<open>Inl\<close> of the exception it raises.
  \<open>'df\<close> is the pandas \<open>DataFrame\<close>, which the source never looks into.
\<close>

record 'df pylib =
  json_loads :: "string \<Rightarrow> pyexc + pyval"
  read_csv :: "string \<Rightarrow> char \<Rightarrow> pyexc + 'df"
  to_dict_records :: "'df \<Rightarrow> pyexc + pyval"
  et_fromstring :: "string \<Rightarrow> pyexc + element"
  yaml_safe_load :: "string \<Rightarrow> pyexc + pyval"
  data_frame :: "pyval \<Rightarrow> pyexc + 'df"
  json_dumps :: "pyval \<Rightarrow> pyexc + string"
  to_csv :: "'df \<Rightarrow> char \<Rightarrow> pyexc + string"
  yaml_dump :: "pyval \<Rightarrow> pyexc + string"
  et_tostring :: "element \<Rightarrow> pyexc + string"
  minidom_toprettyxml :: "string \<Rightarrow> string \<Rightarrow> pyexc + string"
  py_repr :: "pyval \<Rightarrow> string"

text \<open>What a parser returns: the pair \<open>(data, error)\<close>, \<open>None\<close> in one of the two places.\<close>

type_synonym parsed = "pyval \<times> string option"

section \<open>converter.py\<close>

subsection \<open>\<open>detect_format_from_content\<close>\<close>

definition json_attempt :: "'df pylib \<Rightarrow> string \<Rightarrow> bool" where
  "json_attempt L content = (case json_loads L content of Inr _ \<Rightarrow> True | Inl _ \<Rightarrow> False)"

definition xml_attempt :: "'df pylib \<Rightarrow> string \<Rightarrow> bool" where
  "xml_attempt L content = (case et_fromstring L content of Inr _ \<Rightarrow> True | Inl _ \<Rightarrow> False)"

definition yaml_attempt :: "'df pylib \<Rightarrow> string \<Rightarrow> bool" where
  "yaml_attempt L content = (case yaml_safe_load L content of Inr _ \<Rightarrow> True | Inl _ \<Rightarrow> False)"

definition detect_delimited :: "string \<Rightarrow> string" where
  "detect_delimited content =
     (let lines = py_split content (CHR 0x0A) in
      if length lines > 1 then
        (let first_line = lines ! 0;
             comma_count = py_count first_line (CHR '','');
             tab_count = py_count first_line (CHR 0x09)
         in if tab_count > comma_count \<and> tab_count > 0 then ''TSV''
            else if comma_count > 0 then ''CSV''
            else ''Unknown'')
      else ''Unknown'')"

definition detect_format_from_content :: "'df pylib \<Rightarrow> string \<Rightarrow> string" where
  "detect_format_from_content L raw =
     (let content = py_strip raw in
      if ((startswith content ''['' \<and> endswith content '']'')
            \<or> (startswith content ''{'' \<and> endswith content ''}''))
         \<and> json_attempt L content
      then ''JSON''
      else if (startswith content ''<'' \<and> endswith content ''>'') \<and> xml_attempt L content
      then ''XML''
      else if ((py_in ''- '' content \<and> py_in '':'' content)
                 \<or> (py_count content (CHR '':'') > py_count content (CHR '','')
                      \<and> py_in [CHR 0x0A] content))
              \<and> yaml_attempt L content
      then ''YAML''
      else detect_delimited content)"

subsection \<open>The parsers\<close>

definition parse_json_file :: "'df pylib \<Rightarrow> string \<Rightarrow> pyexc + parsed" where
  "parse_json_file L file_content =
     (case json_loads L file_content of
        Inr v \<Rightarrow> Inr (v, None)
      | Inl (JSONDecodeError e) \<Rightarrow> Inr (PNone, Some (''Invalid JSON format: '' @ e))
      | Inl other \<Rightarrow> Inl other)"

definition parse_csv_file :: "'df pylib \<Rightarrow> string \<Rightarrow> char \<Rightarrow> pyexc + parsed" where
  "parse_csv_file L file_content delimiter =
     (case read_csv L file_content delimiter of
        Inl e \<Rightarrow> Inr (PNone, Some (''Error parsing CSV: '' @ exc_text e))
      | Inr df \<Rightarrow>
          (case to_dict_records L df of
             Inl e \<Rightarrow> Inr (PNone, Some (''Error parsing CSV: '' @ exc_text e))
           | Inr recs \<Rightarrow> Inr (recs, None)))"

definition parse_tsv_file :: "'df pylib \<Rightarrow> string \<Rightarrow> pyexc + parsed" where
  "parse_tsv_file L file_content = parse_csv_file L file_content (CHR 0x09)"

definition text_or_empty :: "string option \<Rightarrow> pyval" where
  "text_or_empty t = (case t of None \<Rightarrow> PStr [] | Some s \<Rightarrow> PStr s)"

definition xml_record :: "element \<Rightarrow> pyval" where
  "xml_record child =
     (if length (el_children child) > 0
      then PDict (foldl (\<lambda>record subchild. dict_set record (el_tag subchild) (text_or_empty (el_text subchild)))
                    [] (el_children child))
      else PDict (dict_set [] (el_tag child) (text_or_empty (el_text child))))"

definition xml_records :: "element \<Rightarrow> pyval" where
  "xml_records root =
     (if length (el_children root) > 0
      then PList (map xml_record (el_children root))
      else PList [PDict (foldl (\<lambda>record child. dict_set record (el_tag child) (text_or_empty (el_text child)))
                           [] (el_children root))])"

definition parse_xml_file :: "'df pylib \<Rightarrow> string \<Rightarrow> pyexc + parsed" where
  "parse_xml_file L file_content =
     (case et_fromstring L file_content of
        Inr root \<Rightarrow> Inr (xml_records root, None)
      | Inl (XMLParseError e) \<Rightarrow> Inr (PNone, Some (''Invalid XML format: '' @ e))
      | Inl other \<Rightarrow> Inr (PNone, Some (''Error parsing XML: '' @ exc_text other)))"

definition yaml_shape :: "pyval \<Rightarrow> parsed" where
  "yaml_shape data =
     (case data of
        PList xs \<Rightarrow> (PList xs, None)
      | PDict kvs \<Rightarrow> (PList [PDict kvs], None)
      | _ \<Rightarrow> (PNone, Some ''YAML must contain a list of objects or a single object''))"

definition parse_yaml_file :: "'df pylib \<Rightarrow> string \<Rightarrow> pyexc + parsed" where
  "parse_yaml_file L file_content =
     (case yaml_safe_load L file_content of
        Inr data \<Rightarrow> Inr (yaml_shape data)
      | Inl (YAMLError e) \<Rightarrow> Inr (PNone, Some (''Invalid YAML format: '' @ e))
      | Inl other \<Rightarrow> Inl other)"

subsection \<open>\<open>validate_data\<close>\<close>

definition validate_data :: "pyval \<Rightarrow> bool \<times> string" where
  "validate_data data =
     (case data of
        PList xs \<Rightarrow>
          (case xs of
             [] \<Rightarrow> (False, ''Data array is empty'')
           | x # _ \<Rightarrow>
               (case x of
                  PDict _ \<Rightarrow> (True, ''Data is valid'')
                | _ \<Rightarrow> (False, ''Data must contain objects/dictionaries'')))
      | _ \<Rightarrow> (False, ''Data must be an array/list of objects''))"

subsection \<open>\<open>main\<close>: the pasted-data branch\<close>

text \<open>What \<open>main\<close> shows through \<open>st.info\<close>, \<open>st.warning\<close>, \<open>st.success\<close>, \<open>st.error\<close>.\<close>

datatype shown = Info string | Warning string | Success string | Error string | Markdown string

definition fmt_error :: "string option \<Rightarrow> string" where
  "fmt_error error = (case error of None \<Rightarrow> ''None'' | Some e \<Rightarrow> e)"

definition cross_mark :: string where
  "cross_mark = [CHR 0xE2, CHR 0x9D, CHR 0x8C, CHR '' '']"

definition check_mark :: string where
  "check_mark = [CHR 0xE2, CHR 0x9C, CHR 0x85, CHR '' '']"

definition unknown_warning :: string where
  "unknown_warning = [CHR 0xE2, CHR 0x9A, CHR 0xA0, CHR 0xEF, CHR 0xB8, CHR 0x8F]
                     @ '' Unable to detect format automatically. Trying multiple parsers...''"

definition fallback_parsers :: "'df pylib \<Rightarrow> (string \<times> (string \<Rightarrow> pyexc + parsed)) list" where
  "fallback_parsers L =
     [(''JSON'', parse_json_file L),
      (''CSV'', \<lambda>t. parse_csv_file L t (CHR '','')),
      (''TSV'', parse_tsv_file L),
      (''XML'', parse_xml_file L),
      (''YAML'', parse_yaml_file L)]"

text \<open>
  The loop \<open>for format_name, parser in parsers\<close>: every turn overwrites \<open>data\<close> and
  \<open>error\<close>, and the loop stops at the first \<open>data\<close> that is not \<open>None\<close>.
\<close>

fun try_parsers ::
  "(string \<times> (string \<Rightarrow> pyexc + parsed)) list \<Rightarrow> string \<Rightarrow> parsed \<Rightarrow> pyexc + parsed \<times> shown list"
where
  "try_parsers [] data_text cur = Inr (cur, [])"
| "try_parsers ((format_name, parser) # rest) data_text cur =
     (case parser data_text of
        Inl e \<Rightarrow> Inl e
      | Inr (data, error) \<Rightarrow>
          if data \<noteq> PNone
          then Inr ((data, error),
                    [Info (check_mark @ ''Successfully parsed as **'' @ format_name @ ''**'')])
          else try_parsers rest data_text (data, error))"

definition parse_pasted :: "'df pylib \<Rightarrow> string \<Rightarrow> pyexc + parsed \<times> shown list" where
  "parse_pasted L data_text =
     (let detected_format = detect_format_from_content L data_text;
          note = (if detected_format \<noteq> ''Unknown''
                  then Info ([CHR 0xF0, CHR 0x9F, CHR 0x94, CHR 0x8D] @ '' Detected format: **''
                             @ detected_format @ ''**'')
                  else Warning unknown_warning);
          attempt =
            (if detected_format = ''JSON'' then map_sum id (\<lambda>p. (p, [])) (parse_json_file L data_text)
             else if detected_format = ''CSV'' then map_sum id (\<lambda>p. (p, [])) (parse_csv_file L data_text (CHR '',''))
             else if detected_format = ''TSV'' then map_sum id (\<lambda>p. (p, [])) (parse_tsv_file L data_text)
             else if detected_format = ''XML'' then map_sum id (\<lambda>p. (p, [])) (parse_xml_file L data_text)
             else if detected_format = ''YAML'' then map_sum id (\<lambda>p. (p, [])) (parse_yaml_file L data_text)
             else try_parsers (fallback_parsers L) data_text (PNone, None))
      in case attempt of
           Inl e \<Rightarrow> Inl e
         | Inr ((data, error), msgs) \<Rightarrow>
             Inr ((data, error),
                  note # msgs @
                  [if data \<noteq> PNone then Success (check_mark @ ''Data parsed successfully!'')
                   else Error (cross_mark @ fmt_error error)]))"

text \<open>
  \<open>parse_pasted\<close> is the block under \<open>if data_text.strip():\<close>. \<open>paste_data\<close> is the
  whole branch \<open>elif data_source == "Paste Data"\<close>: for a blank text the block does not
  run, \<open>data\<close> keeps the \<open>None\<close> it was given before the branch and nothing is shown.
\<close>

definition paste_data :: "'df pylib \<Rightarrow> string \<Rightarrow> pyexc + pyval \<times> shown list" where
  "paste_data L data_text =
     (if py_strip data_text \<noteq> []
      then map_sum id (\<lambda>p. (fst (fst p), snd p)) (parse_pasted L data_text)
      else Inr (PNone, []))"

section \<open>new_converter.py\<close>

subsection \<open>The parsers\<close>

definition parse_json_data :: "'df pylib \<Rightarrow> string \<Rightarrow> pyexc + parsed" where
  "parse_json_data L content =
     (case json_loads L content of
        Inr v \<Rightarrow> Inr (v, None)
      | Inl (JSONDecodeError e) \<Rightarrow> Inr (PNone, Some (''Invalid JSON format: '' @ e))
      | Inl other \<Rightarrow> Inl other)"

definition parse_csv_data :: "'df pylib \<Rightarrow> string \<Rightarrow> char \<Rightarrow> pyexc + parsed" where
  "parse_csv_data L content delimiter =
     (case read_csv L content delimiter of
        Inl e \<Rightarrow> Inr (PNone, Some (''Error parsing CSV: '' @ exc_text e))
      | Inr df \<Rightarrow>
          (case to_dict_records L df of
             Inl e \<Rightarrow> Inr (PNone, Some (''Error parsing CSV: '' @ exc_text e))
           | Inr recs \<Rightarrow> Inr (recs, None)))"

definition parse_tsv_data :: "'df pylib \<Rightarrow> string \<Rightarrow> pyexc + parsed" where
  "parse_tsv_data L content = parse_csv_data L content (CHR 0x09)"

definition parse_xml_data :: "'df pylib \<Rightarrow> string \<Rightarrow> pyexc + parsed" where
  "parse_xml_data L content =
     (case et_fromstring L content of
        Inr root \<Rightarrow> Inr (xml_records root, None)
      | Inl (XMLParseError e) \<Rightarrow> Inr (PNone, Some (''Invalid XML format: '' @ e))
      | Inl other \<Rightarrow> Inl other)"

definition parse_yaml_data :: "'df pylib \<Rightarrow> string \<Rightarrow> pyexc + parsed" where
  "parse_yaml_data L content =
     (case yaml_safe_load L content of
        Inr data \<Rightarrow> Inr (yaml_shape data)
      | Inl (YAMLError e) \<Rightarrow> Inr (PNone, Some (''Invalid YAML format: '' @ e))
      | Inl other \<Rightarrow> Inl other)"

definition process_data_with_format :: "'df pylib \<Rightarrow> string \<Rightarrow> string \<Rightarrow> pyexc + parsed" where
  "process_data_with_format L content input_format =
     (if input_format = ''JSON'' then parse_json_data L content
      else if input_format = ''CSV'' then parse_csv_data L content (CHR '','')
      else if input_format = ''TSV'' then parse_tsv_data L content
      else if input_format = ''XML'' then parse_xml_data L content
      else if input_format = ''YAML'' then parse_yaml_data L content
      else Inr (PNone, Some (''Unsupported input format: '' @ input_format)))"

subsection \<open>\<open>str\<close> of a value\<close>

fun nat_digits :: "nat \<Rightarrow> string" where
  "nat_digits n =
     (if n < 10 then [char_of (48 + n)]
      else nat_digits (n div 10) @ [char_of (48 + n mod 10)])"

definition int_str :: "int \<Rightarrow> string" where
  "int_str i = (if i < 0 then CHR ''-'' # nat_digits (nat (- i)) else nat_digits (nat i))"

text \<open>
  \<open>str(value)\<close>. The text of a list or dictionary is its \<open>repr\<close>, which is left to the
  parameter \<open>py_repr\<close>.
\<close>

definition py_str :: "'df pylib \<Rightarrow> pyval \<Rightarrow> string" where
  "py_str L v =
     (case v of
        PNone \<Rightarrow> ''None''
      | PBool b \<Rightarrow> (if b then ''True'' else ''False'')
      | PInt i \<Rightarrow> int_str i
      | PFloat t \<Rightarrow> t
      | PStr s \<Rightarrow> s
      | _ \<Rightarrow> py_repr L v)"

subsection \<open>The generators\<close>

type_synonym generated = "string \<times> string \<times> string"

definition generate_json_output :: "'df pylib \<Rightarrow> pyval \<Rightarrow> pyexc + generated" where
  "generate_json_output L data =
     (case json_dumps L data of
        Inl e \<Rightarrow> Inl e
      | Inr out \<Rightarrow> Inr (out, ''application/json'', ''.json''))"

definition generate_csv_output :: "'df pylib \<Rightarrow> 'df \<Rightarrow> pyexc + generated" where
  "generate_csv_output L df =
     (case to_csv L df (CHR '','') of
        Inl e \<Rightarrow> Inl e
      | Inr out \<Rightarrow> Inr (out, ''text/csv'', ''.csv''))"

definition generate_tsv_output :: "'df pylib \<Rightarrow> 'df \<Rightarrow> pyexc + generated" where
  "generate_tsv_output L df =
     (case to_csv L df (CHR 0x09) of
        Inl e \<Rightarrow> Inl e
      | Inr out \<Rightarrow> Inr (out, ''text/tab-separated-values'', ''.tsv''))"

text \<open>
  The tree \<open>generate_xml_output\<close> builds before it serialises: one \<open>record_N\<close> element per
  record, one element per field. A record without \<open>items()\<close> (anything but a dictionary)
  raises \<open>AttributeError\<close>.
\<close>

definition field_elem :: "'df pylib \<Rightarrow> string \<times> pyval \<Rightarrow> element" where
  "field_elem L kv =
     (case kv of (key, v) \<Rightarrow>
        Element (py_replace key (CHR '' '') (CHR ''_''))
                (Some (if v \<noteq> PNone then py_str L v else []))
                [])"

definition record_elem :: "'df pylib \<Rightarrow> nat \<Rightarrow> pyval \<Rightarrow> pyexc + element" where
  "record_elem L i record =
     (case record of
        PDict items \<Rightarrow> Inr (Element (''record_'' @ nat_digits (i + 1)) None (map (field_elem L) items))
      | _ \<Rightarrow> Inl (OtherException ''AttributeError''))"

fun record_elems :: "'df pylib \<Rightarrow> nat \<Rightarrow> pyval list \<Rightarrow> pyexc + element list" where
  "record_elems L i [] = Inr []"
| "record_elems L i (record # rest) =
     (case record_elem L i record of
        Inl e \<Rightarrow> Inl e
      | Inr el \<Rightarrow>
          (case record_elems L (i + 1) rest of
             Inl e \<Rightarrow> Inl e
           | Inr els \<Rightarrow> Inr (el # els)))"

definition xml_tree :: "'df pylib \<Rightarrow> pyval list \<Rightarrow> pyexc + element" where
  "xml_tree L data =
     (case record_elems L 0 data of
        Inl e \<Rightarrow> Inl e
      | Inr els \<Rightarrow> Inr (Element ''data'' None els))"

definition generate_xml_output :: "'df pylib \<Rightarrow> pyval list \<Rightarrow> pyexc + generated" where
  "generate_xml_output L data =
     (case xml_tree L data of
        Inl e \<Rightarrow> Inl e
      | Inr root \<Rightarrow>
          (case et_tostring L root of
             Inl e \<Rightarrow> Inl e
           | Inr rough_string \<Rightarrow>
               (case minidom_toprettyxml L rough_string ''  '' of
                  Inr pretty \<Rightarrow> Inr (pretty, ''application/xml'', ''.xml'')
                | Inl _ \<Rightarrow> Inr (rough_string, ''application/xml'', ''.xml''))))"


subsection \<open>\<open>main\<close>: the pasted-data branch and the validation that follows it\<close>

text \<open>
  \<open>new_paste\<close> is the block under \<open>if data_text.strip()\<close>: it parses with the selected
  format and shows either the success line or the error. \<open>is_record_list\<close> is the test
  \<open>isinstance(data, list) and len(data) > 0 and isinstance(data[0], dict)\<close>.
\<close>

definition new_paste :: "'df pylib \<Rightarrow> string \<Rightarrow> string \<Rightarrow> pyexc + parsed \<times> shown list" where
  "new_paste L input_format data_text =
     (case process_data_with_format L data_text input_format of
        Inl e \<Rightarrow> Inl e
      | Inr (data, error) \<Rightarrow>
          Inr ((data, error),
               [if data \<noteq> PNone
                then Success (check_mark @ input_format @ '' data parsed successfully!'')
                else Error (cross_mark @ fmt_error error)]))"

text \<open>The whole branch: a blank text leaves \<open>data\<close> at \<open>None\<close> and shows nothing.\<close>

definition new_paste_data :: "'df pylib \<Rightarrow> string \<Rightarrow> string \<Rightarrow> pyexc + pyval \<times> shown list" where
  "new_paste_data L input_format data_text =
     (if py_strip data_text \<noteq> []
      then map_sum id (\<lambda>p. (fst (fst p), snd p)) (new_paste L input_format data_text)
      else Inr (PNone, []))"

definition is_record_list :: "pyval \<Rightarrow> bool" where
  "is_record_list data =
     (case data of
        PList xs \<Rightarrow> (length xs > 0 \<and> (case xs ! 0 of PDict _ \<Rightarrow> True | _ \<Rightarrow> False))
      | _ \<Rightarrow> False)"

text \<open>
  The block under \<open>if data is not None\<close>: the session keeps \<open>processed_data\<close> and the
  data frame built from it, or the page shows that the data is not a list of objects.
\<close>

definition new_process ::
  "'df pylib \<Rightarrow> pyval \<Rightarrow> pyexc + (pyval \<times> 'df) option \<times> shown list" where
  "new_process L data =
     (if data \<noteq> PNone then
        (if is_record_list data then
           (case data_frame L data of
              Inl e \<Rightarrow> Inl e
            | Inr df \<Rightarrow> Inr (Some (data, df),
                 [Markdown (''<div class='' @ [CHR 0x22] @ ''success-box'' @ [CHR 0x22] @ ''>'' @ check_mark
                            @ ''Data processed and ready for conversion!</div>'')]))
         else Inr (None,
                 [Markdown (''<div class='' @ [CHR 0x22] @ ''error-box'' @ [CHR 0x22] @ ''>'' @ cross_mark
                            @ ''Data must be a list of objects/dictionaries</div>'')]))
      else Inr (None, []))"

section \<open>A model of \<open>json.loads\<close>\<close>

text \<open>
  The decoder of the \<open>json\<close> module: whitespace, the constants, numbers, strings with
  their escapes, arrays and objects. \<open>None\<close> stands for \<open>JSONDecodeError\<close>. The
  recursion on nested values is bounded by fuel; \<open>py_json_decode\<close> starts with more fuel
  than the text has characters.
\<close>

definition json_ws :: "char \<Rightarrow> bool" where
  "json_ws c = (c = CHR '' '' \<or> c = CHR 0x09 \<or> c = CHR 0x0A \<or> c = CHR 0x0D)"

definition skip_ws :: "string \<Rightarrow> string" where
  "skip_ws s = dropWhile json_ws s"

definition is_digit :: "char \<Rightarrow> bool" where
  "is_digit c = (48 \<le> (of_char c :: nat) \<and> (of_char c :: nat) \<le> 57)"

definition digit_val :: "char \<Rightarrow> nat" where
  "digit_val c = of_char c - 48"

definition hex_val :: "char \<Rightarrow> nat option" where
  "hex_val c = (let n = of_char c :: nat in
     if 48 \<le> n \<and> n \<le> 57 then Some (n - 48)
     else if 97 \<le> n \<and> n \<le> 102 then Some (n - 87)
     else if 65 \<le> n \<and> n \<le> 70 then Some (n - 55)
     else None)"

definition hex4 :: "char \<Rightarrow> char \<Rightarrow> char \<Rightarrow> char \<Rightarrow> nat option" where
  "hex4 a b c d =
     (case (hex_val a, hex_val b, hex_val c, hex_val d) of
        (Some w, Some x, Some y, Some z) \<Rightarrow> Some (((w * 16 + x) * 16 + y) * 16 + z)
      | _ \<Rightarrow> None)"

definition utf8_encode :: "nat \<Rightarrow> string" where
  "utf8_encode n =
     (if n < 0x80 then [char_of n]
      else if n < 0x800 then [char_of (0xC0 + n div 64), char_of (0x80 + n mod 64)]
      else if n < 0x10000 then
        [char_of (0xE0 + n div 4096), char_of (0x80 + (n div 64) mod 64), char_of (0x80 + n mod 64)]
      else [char_of (0xF0 + n div 262144), char_of (0x80 + (n div 4096) mod 64),
            char_of (0x80 + (n div 64) mod 64), char_of (0x80 + n mod 64)])"

definition simple_escape :: "char \<Rightarrow> char option" where
  "simple_escape e =
     (if e = CHR 0x22 then Some (CHR 0x22)
      else if e = CHR 0x5C then Some (CHR 0x5C)
      else if e = CHR ''/'' then Some (CHR ''/'')
      else if e = CHR ''b'' then Some (CHR 0x08)
      else if e = CHR ''f'' then Some (CHR 0x0C)
      else if e = CHR ''n'' then Some (CHR 0x0A)
      else if e = CHR ''r'' then Some (CHR 0x0D)
      else if e = CHR ''t'' then Some (CHR 0x09)
      else None)"

definition prepend :: "string \<Rightarrow> (string \<times> string) option \<Rightarrow> (string \<times> string) option" where
  "prepend p r = (case r of None \<Rightarrow> None | Some (t, rest) \<Rightarrow> Some (p @ t, rest))"

fun scan_string :: "string \<Rightarrow> (string \<times> string) option" where
  "scan_string [] = None"
| "scan_string (c # cs) =
     (if c = CHR 0x22 then Some ([], cs)
      else if c = CHR 0x5C then
        (case cs of
           [] \<Rightarrow> None
         | e # r \<Rightarrow>
             if e = CHR ''u'' then
               (case r of
                  h1 # h2 # h3 # h4 # r' \<Rightarrow>
                    (case hex4 h1 h2 h3 h4 of
                       None \<Rightarrow> None
                     | Some n \<Rightarrow>
                         if 0xD800 \<le> n \<and> n \<le> 0xDBFF then
                           (case r' of
                              b # u # l1 # l2 # l3 # l4 # r'' \<Rightarrow>
                                if b = CHR 0x5C \<and> u = CHR ''u'' then
                                  (case hex4 l1 l2 l3 l4 of
                                     None \<Rightarrow> None
                                   | Some m \<Rightarrow>
                                       if 0xDC00 \<le> m \<and> m \<le> 0xDFFF
                                       then prepend (utf8_encode (0x10000 + (n - 0xD800) * 1024 + (m - 0xDC00)))
                                              (scan_string r'')
                                       else prepend (utf8_encode n) (scan_string r'))
                                else prepend (utf8_encode n) (scan_string r')
                            | _ \<Rightarrow> prepend (utf8_encode n) (scan_string r'))
                         else prepend (utf8_encode n) (scan_string r'))
                | _ \<Rightarrow> None)
             else
               (case simple_escape e of
                  None \<Rightarrow> None
                | Some ch \<Rightarrow> prepend [ch] (scan_string r)))
      else if (of_char c :: nat) < 32 then None
      else prepend [c] (scan_string cs))"


definition digits_val :: "string \<Rightarrow> nat" where
  "digits_val ds = foldl (\<lambda>a c. 10 * a + digit_val c) 0 ds"

text \<open>
  The number pattern of the scanner: an integer part \<open>-?(0|[1-9][0-9]*)\<close>, then an
  optional fraction and an optional exponent. With neither the value is an \<open>int\<close>,
  otherwise a \<open>float\<close>.
\<close>

definition scan_int_part :: "string \<Rightarrow> (string \<times> string) option" where
  "scan_int_part s =
     (case s of
        [] \<Rightarrow> None
      | c # cs \<Rightarrow>
          if c = CHR ''0'' then Some ([c], cs)
          else if is_digit c then Some (takeWhile is_digit s, dropWhile is_digit s)
          else None)"

definition scan_frac :: "string \<Rightarrow> string \<times> string" where
  "scan_frac s =
     (case s of
        c # d # cs \<Rightarrow>
          if c = CHR ''.'' \<and> is_digit d
          then (c # takeWhile is_digit (d # cs), dropWhile is_digit (d # cs))
          else ([], s)
      | _ \<Rightarrow> ([], s))"

definition scan_exp :: "string \<Rightarrow> string \<times> string" where
  "scan_exp s =
     (case s of
        [] \<Rightarrow> ([], s)
      | e # cs \<Rightarrow>
          if e = CHR ''e'' \<or> e = CHR ''E'' then
            (case cs of
               [] \<Rightarrow> ([], s)
             | g # ds \<Rightarrow>
                 if g = CHR ''-'' \<or> g = CHR ''+'' then
                   (case ds of
                      [] \<Rightarrow> ([], s)
                    | d # _ \<Rightarrow>
                        if is_digit d
                        then (e # g # takeWhile is_digit ds, dropWhile is_digit ds)
                        else ([], s))
                 else if is_digit g
                 then (e # takeWhile is_digit cs, dropWhile is_digit cs)
                 else ([], s))
          else ([], s))"

definition scan_number :: "string \<Rightarrow> (pyval \<times> string) option" where
  "scan_number s =
     (let (sign, s1) = (case s of c # cs \<Rightarrow> if c = CHR ''-'' then ([c], cs) else ([], s) | [] \<Rightarrow> ([], s))
      in case scan_int_part s1 of
           None \<Rightarrow> None
         | Some (ip, s2) \<Rightarrow>
             (let (fr, s3) = scan_frac s2; (ex, s4) = scan_exp s3
              in if fr = [] \<and> ex = []
                 then Some (PInt (if sign = [] then int (digits_val ip) else - int (digits_val ip)), s2)
                 else Some (PFloat (sign @ ip @ fr @ ex), s4)))"

definition scan_constant :: "string \<Rightarrow> (pyval \<times> string) option" where
  "scan_constant s =
     (if startswith s ''null'' then Some (PNone, drop 4 s)
      else if startswith s ''true'' then Some (PBool True, drop 4 s)
      else if startswith s ''false'' then Some (PBool False, drop 5 s)
      else if startswith s ''NaN'' then Some (PFloat ''nan'', drop 3 s)
      else if startswith s ''Infinity'' then Some (PFloat ''inf'', drop 8 s)
      else if startswith s ''-Infinity'' then Some (PFloat ''-inf'', drop 9 s)
      else None)"

definition dict_of_pairs :: "(string \<times> pyval) list \<Rightarrow> (string \<times> pyval) list" where
  "dict_of_pairs kvs = foldl (\<lambda>d (k, v). dict_set d k v) [] kvs"

fun scan_value :: "nat \<Rightarrow> string \<Rightarrow> (pyval \<times> string) option"
  and scan_items :: "nat \<Rightarrow> string \<Rightarrow> (pyval list \<times> string) option"
  and scan_members :: "nat \<Rightarrow> string \<Rightarrow> ((string \<times> pyval) list \<times> string) option"
where
  "scan_value 0 s = None"
| "scan_value (Suc n) [] = None"
| "scan_value (Suc n) (c # cs) =
     (if c = CHR 0x22 then
        (case scan_string cs of None \<Rightarrow> None | Some (t, r) \<Rightarrow> Some (PStr t, r))
      else if c = CHR ''{'' then
        (case skip_ws cs of
           [] \<Rightarrow> None
         | d # r \<Rightarrow>
             if d = CHR ''}'' then Some (PDict [], r)
             else (case scan_members n (d # r) of
                     None \<Rightarrow> None
                   | Some (kvs, r') \<Rightarrow> Some (PDict (dict_of_pairs kvs), r')))
      else if c = CHR ''['' then
        (case skip_ws cs of
           [] \<Rightarrow> None
         | d # r \<Rightarrow>
             if d = CHR '']'' then Some (PList [], r)
             else (case scan_items n (d # r) of
                     None \<Rightarrow> None
                   | Some (vs, r') \<Rightarrow> Some (PList vs, r')))
      else (case scan_number (c # cs) of
              Some res \<Rightarrow> Some res
            | None \<Rightarrow> scan_constant (c # cs)))"
| "scan_items 0 s = None"
| "scan_items (Suc n) s =
     (case scan_value n s of
        None \<Rightarrow> None
      | Some (v, r) \<Rightarrow>
          (case skip_ws r of
             [] \<Rightarrow> None
           | d # r' \<Rightarrow>
               if d = CHR '','' then
                 (case scan_items n (skip_ws r') of
                    None \<Rightarrow> None
                  | Some (vs, r'') \<Rightarrow> Some (v # vs, r''))
               else if d = CHR '']'' then Some ([v], r')
               else None))"
| "scan_members 0 s = None"
| "scan_members (Suc n) s =
     (case s of
        [] \<Rightarrow> None
      | q # s1 \<Rightarrow>
          if q \<noteq> CHR 0x22 then None
          else
            (case scan_string s1 of
               None \<Rightarrow> None
             | Some (k, r) \<Rightarrow>
                 (case skip_ws r of
                    [] \<Rightarrow> None
                  | col # r1 \<Rightarrow>
                      if col \<noteq> CHR '':'' then None
                      else
                        (case scan_value n (skip_ws r1) of
                           None \<Rightarrow> None
                         | Some (v, r2) \<Rightarrow>
                             (case skip_ws r2 of
                                [] \<Rightarrow> None
                              | d # r3 \<Rightarrow>
                                  if d = CHR '','' then
                                    (case scan_members n (skip_ws r3) of
                                       None \<Rightarrow> None
                                     | Some (kvs, r4) \<Rightarrow> Some ((k, v) # kvs, r4))
                                  else if d = CHR ''}'' then Some ([(k, v)], r3)
                                  else None)))))"

definition py_json_decode :: "string \<Rightarrow> pyval option" where
  "py_json_decode s =
     (case scan_value (Suc (length s)) (skip_ws s) of
        None \<Rightarrow> None
      | Some (v, r) \<Rightarrow> if skip_ws r = [] then Some v else None)"

section \<open>A model of the pandas calls\<close>

text \<open>
  \<open>read_csv\<close>, \<open>DataFrame\<close>, \<open>to_dict('records')\<close> and \<open>to_csv\<close> as pandas (C
  parser, default options) behaves on a fragment: texts without quote characters and
  carriage returns, cells that are integer literals, plain words or empty. Outside the
  fragment the model answers \<open>outside_model\<close> and says nothing.

  The tokenizer skips blank lines, takes the first line as the header, lets the first
  data row be longer than the header (its leading cells become the index), and rejects
  any later row that is longer than both. Shorter rows are padded with missing cells.
\<close>

datatype frame = Frame (columns: "string list") (cells: "pyval list list")

definition outside_model :: pyexc where
  "outside_model = OtherException ''outside the modelled fragment''"

definition blank_line :: "char \<Rightarrow> string \<Rightarrow> bool" where
  "blank_line delimiter l = (\<forall>c \<in> set l. (c = CHR '' '' \<or> c = CHR 0x09) \<and> c \<noteq> delimiter)"

text \<open>The lines of the text with their 1-based line numbers, blank lines skipped.\<close>

definition csv_lines :: "string \<Rightarrow> char \<Rightarrow> (nat \<times> string list) list" where
  "csv_lines content delimiter =
     map (\<lambda>(i, l). (i, py_split l delimiter))
       (filter (\<lambda>(i, l). \<not> blank_line delimiter l)
          (zip [1 ..< Suc (length (py_split content (CHR 0x0A)))] (py_split content (CHR 0x0A))))"

fun check_rows :: "nat \<Rightarrow> (nat \<times> string list) list \<Rightarrow> pyexc + string list list" where
  "check_rows ex [] = Inr []"
| "check_rows ex ((i, flds) # rest) =
     (if length flds > ex
      then Inl (OtherException (''Error tokenizing data. C error: Expected '' @ nat_digits ex
                  @ '' fields in line '' @ nat_digits i @ '', saw '' @ nat_digits (length flds)
                  @ [CHR 0x0A]))
      else (case check_rows ex rest of
              Inl e \<Rightarrow> Inl e
            | Inr rows \<Rightarrow> Inr ((flds @ replicate (ex - length flds) []) # rows)))"

definition tokenize_rows :: "nat \<Rightarrow> (nat \<times> string list) list \<Rightarrow> pyexc + nat \<times> string list list" where
  "tokenize_rows n body =
     (case body of
        [] \<Rightarrow> Inr (n, [])
      | (i, first) # rest \<Rightarrow>
          (let ex = max n (length first) in
           case check_rows ex ((i, first) # rest) of
             Inl e \<Rightarrow> Inl e
           | Inr rows \<Rightarrow> Inr (ex, rows)))"


definition header_names :: "string list \<Rightarrow> string list" where
  "header_names hs =
     map (\<lambda>(i, h). if h = [] then ''Unnamed: '' @ nat_digits i else h) (zip [0 ..< length hs] hs)"

fun mangle_dupes :: "string list \<Rightarrow> string list \<Rightarrow> string list" where
  "mangle_dupes seen [] = []"
| "mangle_dupes seen (h # hs) =
     (let k = length (filter (\<lambda>x. x = h) seen)
      in (if k = 0 then h else h @ ''.'' @ nat_digits k) # mangle_dupes (seen @ [h]) hs)"

definition is_letter :: "char \<Rightarrow> bool" where
  "is_letter c = (let n = of_char c :: nat in (65 \<le> n \<and> n \<le> 90) \<or> (97 \<le> n \<and> n \<le> 122))"

definition lower :: "char \<Rightarrow> char" where
  "lower c = (let n = of_char c :: nat in if 65 \<le> n \<and> n \<le> 90 then char_of (n + 32) else c)"

definition plain_word :: "string \<Rightarrow> bool" where
  "plain_word s =
     (s \<noteq> [] \<and> list_all is_letter s \<and> length s \<le> 100
      \<and> map lower s \<notin> set [''na'', ''nan'', ''null'', ''none'', ''true'', ''false'', ''inf'',
                               ''infinity'', ''yes'', ''no'', ''on'', ''off'', ''y'', ''n''])"

definition int_literal :: "string \<Rightarrow> bool" where
  "int_literal s =
     (case s of
        [] \<Rightarrow> False
      | c # cs \<Rightarrow>
          if c = CHR ''-''
          then cs \<noteq> [] \<and> list_all is_digit cs \<and> length cs \<le> 15 \<and> digits_val cs \<noteq> 0
          else list_all is_digit s \<and> length s \<le> 15)"

definition int_of_literal :: "string \<Rightarrow> int" where
  "int_of_literal s =
     (case s of
        [] \<Rightarrow> 0
      | c # cs \<Rightarrow> if c = CHR ''-'' then - int (digits_val cs) else int (digits_val s))"

definition float_of_int :: "int \<Rightarrow> pyval" where
  "float_of_int i = PFloat (int_str i @ ''.0'')"

definition py_nan :: pyval where
  "py_nan = PFloat ''nan''"

definition convert_column :: "string list \<Rightarrow> pyexc + pyval list" where
  "convert_column col =
     (if list_all int_literal col then Inr (map (\<lambda>c. PInt (int_of_literal c)) col)
      else if list_all (\<lambda>c. int_literal c \<or> c = []) col
      then Inr (map (\<lambda>c. if c = [] then py_nan else float_of_int (int_of_literal c)) col)
      else if list_all (\<lambda>c. int_literal c \<or> plain_word c \<or> c = []) col
      then Inr (map (\<lambda>c. if c = [] then py_nan else PStr c) col)
      else Inl outside_model)"

fun collect :: "(pyexc + 'a) list \<Rightarrow> pyexc + 'a list" where
  "collect [] = Inr []"
| "collect (x # xs) =
     (case x of
        Inl e \<Rightarrow> Inl e
      | Inr v \<Rightarrow> (case collect xs of Inl e \<Rightarrow> Inl e | Inr vs \<Rightarrow> Inr (v # vs)))"

definition rows_of_columns :: "nat \<Rightarrow> 'a list list \<Rightarrow> 'a list list" where
  "rows_of_columns n cols = map (\<lambda>i. map (\<lambda>col. col ! i) cols) [0 ..< n]"

definition pandas_read_csv :: "string \<Rightarrow> char \<Rightarrow> pyexc + frame" where
  "pandas_read_csv content delimiter =
     (if CHR 0x22 \<in> set content \<or> CHR 0x0D \<in> set content then Inl outside_model
      else
        (case csv_lines content delimiter of
           [] \<Rightarrow> Inl (OtherException ''No columns to parse from file'')
         | (_, header) # body \<Rightarrow>
             (case tokenize_rows (length header) body of
                Inl e \<Rightarrow> Inl e
              | Inr (ex, rows) \<Rightarrow>
                  (let names = mangle_dupes [] (header_names header);
                       data = map (drop (ex - length header)) rows
                   in if \<not> distinct names then Inl outside_model
                      else
                        (case collect (map (\<lambda>j. convert_column (map (\<lambda>r. r ! j) data))
                                         [0 ..< length names]) of
                           Inl e \<Rightarrow> Inl e
                         | Inr cols \<Rightarrow> Inr (Frame names (rows_of_columns (length data) cols)))))))"

definition frame_to_dict_records :: "frame \<Rightarrow> pyexc + pyval" where
  "frame_to_dict_records df = Inr (PList (map (\<lambda>row. PDict (zip (columns df) row)) (cells df)))"

text \<open>\<open>pd.DataFrame(data)\<close> for a list of dictionaries.\<close>

fun add_keys :: "string list \<Rightarrow> string list \<Rightarrow> string list" where
  "add_keys acc [] = acc"
| "add_keys acc (k # ks) = add_keys (if k \<in> set acc then acc else acc @ [k]) ks"

fun dict_items :: "pyval \<Rightarrow> (string \<times> pyval) list option" where
  "dict_items (PDict kvs) = Some kvs"
| "dict_items _ = None"

definition is_int_cell :: "pyval option \<Rightarrow> bool" where
  "is_int_cell c = (case c of Some (PInt i) \<Rightarrow> \<bar>i\<bar> < 10 ^ 15 | _ \<Rightarrow> False)"

definition is_str_cell :: "pyval option \<Rightarrow> bool" where
  "is_str_cell c = (case c of Some (PStr _) \<Rightarrow> True | _ \<Rightarrow> False)"

definition infer_column :: "pyval option list \<Rightarrow> pyexc + pyval list" where
  "infer_column col =
     (if list_all is_int_cell col then Inr (map the col)
      else if list_all (\<lambda>c. is_int_cell c \<or> c = None) col
      then Inr (map (\<lambda>c. case c of Some (PInt i) \<Rightarrow> float_of_int i | _ \<Rightarrow> py_nan) col)
      else if list_all (\<lambda>c. is_int_cell c \<or> is_str_cell c \<or> c = None) col
      then Inr (map (\<lambda>c. case c of Some v \<Rightarrow> v | None \<Rightarrow> py_nan) col)
      else Inl outside_model)"

definition pandas_data_frame :: "pyval \<Rightarrow> pyexc + frame" where
  "pandas_data_frame data =
     (case data of
        PList recs \<Rightarrow>
          (if recs = [] \<or> \<not> list_all (\<lambda>r. dict_items r \<noteq> None) recs then Inl outside_model
           else
             (let dicts = map (\<lambda>r. the (dict_items r)) recs;
                  names = foldl (\<lambda>acc d. add_keys acc (map fst d)) [] dicts
              in case collect (map (\<lambda>k. infer_column (map (\<lambda>d. map_of d k) dicts)) names) of
                   Inl e \<Rightarrow> Inl e
                 | Inr cols \<Rightarrow> Inr (Frame names (rows_of_columns (length dicts) cols))))
      | _ \<Rightarrow> Inl outside_model)"

text \<open>\<open>df.to_csv(output, index=False, sep=...)\<close>, lines ended by a line feed.\<close>

definition csv_quote :: "char \<Rightarrow> string \<Rightarrow> string" where
  "csv_quote sep s =
     (if \<exists>c \<in> set s. c = sep \<or> c = CHR 0x22 \<or> c = CHR 0x0A
      then [CHR 0x22] @ concat (map (\<lambda>c. if c = CHR 0x22 then [c, c] else [c]) s) @ [CHR 0x22]
      else s)"

definition csv_cell :: "pyval \<Rightarrow> pyexc + string" where
  "csv_cell v =
     (case v of
        PInt i \<Rightarrow> Inr (int_str i)
      | PFloat t \<Rightarrow> Inr (if t = ''nan'' then [] else t)
      | PStr s \<Rightarrow> (if CHR 0x0D \<in> set s then Inl outside_model else Inr s)
      | _ \<Rightarrow> Inl outside_model)"

fun join :: "string \<Rightarrow> string list \<Rightarrow> string" where
  "join sep [] = []"
| "join sep [x] = x"
| "join sep (x # y # ys) = x @ sep @ join sep (y # ys)"

definition csv_row :: "char \<Rightarrow> string list \<Rightarrow> string" where
  "csv_row sep flds =
     (if flds = [[]] then [CHR 0x22, CHR 0x22, CHR 0x0A]
      else join [sep] (map (csv_quote sep) flds) @ [CHR 0x0A])"

definition pandas_to_csv :: "frame \<Rightarrow> char \<Rightarrow> pyexc + string" where
  "pandas_to_csv df sep =
     (if \<exists>h \<in> set (columns df). CHR 0x0D \<in> set h then Inl outside_model
      else
        (case collect (map (\<lambda>row. collect (map csv_cell row)) (cells df)) of
           Inl e \<Rightarrow> Inl e
         | Inr rows \<Rightarrow> Inr (csv_row sep (columns df) @ concat (map (csv_row sep) rows))))"

section \<open>A model of \<open>yaml.dump\<close>\<close>

text \<open>
  \<open>yaml.dump(data, default_flow_style=False, allow_unicode=True)\<close> for a list of
  dictionaries whose values are \<open>None\<close>, booleans, integers, floats and strings. The
  call leaves \<open>sort_keys\<close> at its default, so the representer sorts the items of every
  mapping by key before they are emitted. Every mapping is a block: its first item after
  \<open>- \<close>, the others indented by two spaces.

  A string is written plain when the emitter allows it and when, read back as a plain
  scalar, it would be a string again; otherwise it is written between single quotes.
  The model covers the strings made of printable characters on one line, short enough
  not to reach the column where the emitter starts to fold lines; for any other string,
  an empty or very long key, a nested value or a record that is not a dictionary it
  answers \<open>outside_model\<close>. A value stands for an object of its own: the anchors and
  aliases that \<open>yaml.dump\<close> writes when one dictionary object occurs twice in the data
  are not modelled.
\<close>

subsection \<open>Characters\<close>

definition utf8_cont :: "char \<Rightarrow> bool" where
  "utf8_cont c = (0x80 \<le> (of_char c :: nat) \<and> (of_char c :: nat) < 0xC0)"

definition cont_val :: "char \<Rightarrow> nat" where
  "cont_val c = of_char c - 0x80"

fun utf8_decode :: "string \<Rightarrow> nat list option" where
  "utf8_decode [] = Some []"
| "utf8_decode (a # s) =
     (let n = of_char a :: nat in
      if n < 0x80 then map_option ((#) n) (utf8_decode s)
      else if 0xC2 \<le> n \<and> n \<le> 0xDF then
        (case s of
           b # s1 \<Rightarrow>
             if utf8_cont b
             then map_option ((#) ((n - 0xC0) * 64 + cont_val b)) (utf8_decode s1)
             else None
         | _ \<Rightarrow> None)
      else if 0xE0 \<le> n \<and> n \<le> 0xEF then
        (case s of
           b # c # s2 \<Rightarrow>
             (let cp = (n - 0xE0) * 4096 + cont_val b * 64 + cont_val c in
              if utf8_cont b \<and> utf8_cont c \<and> 0x800 \<le> cp \<and> \<not> (0xD800 \<le> cp \<and> cp \<le> 0xDFFF)
              then map_option ((#) cp) (utf8_decode s2)
              else None)
         | _ \<Rightarrow> None)
      else if 0xF0 \<le> n \<and> n \<le> 0xF4 then
        (case s of
           b # c # d # s3 \<Rightarrow>
             (let cp = (n - 0xF0) * 262144 + cont_val b * 4096 + cont_val c * 64 + cont_val d in
              if utf8_cont b \<and> utf8_cont c \<and> utf8_cont d \<and> 0x10000 \<le> cp \<and> cp \<le> 0x10FFFF
              then map_option ((#) cp) (utf8_decode s3)
              else None)
         | _ \<Rightarrow> None)
      else None)"

text \<open>
  The characters the emitter writes as they are when \<open>allow_unicode\<close> is set, line
  breaks left out.
\<close>

definition yaml_printable :: "nat \<Rightarrow> bool" where
  "yaml_printable n =
     ((0x20 \<le> n \<and> n \<le> 0x7E)
      \<or> (0xA0 \<le> n \<and> n \<le> 0xD7FF \<and> n \<noteq> 0x2028 \<and> n \<noteq> 0x2029)
      \<or> (0xE000 \<le> n \<and> n \<le> 0xFFFD \<and> n \<noteq> 0xFEFF)
      \<or> (0x10000 \<le> n \<and> n < 0x10FFFF))"

subsection \<open>The implicit resolvers\<close>

text \<open>
  The regular expressions of \<open>yaml.resolver\<close>, matched against the whole scalar by
  derivatives.
\<close>

datatype rx = Zero | Eps | Sym string | Seq rx rx | Alt rx rx | Star rx

fun nullable :: "rx \<Rightarrow> bool" where
  "nullable Zero = False"
| "nullable Eps = True"
| "nullable (Sym cs) = False"
| "nullable (Seq r s) = (nullable r \<and> nullable s)"
| "nullable (Alt r s) = (nullable r \<or> nullable s)"
| "nullable (Star r) = True"

definition rx_seq :: "rx \<Rightarrow> rx \<Rightarrow> rx" where
  "rx_seq r s = (if r = Zero \<or> s = Zero then Zero else if r = Eps then s else Seq r s)"

definition rx_alt :: "rx \<Rightarrow> rx \<Rightarrow> rx" where
  "rx_alt r s = (if r = Zero then s else if s = Zero then r else Alt r s)"

fun deriv :: "char \<Rightarrow> rx \<Rightarrow> rx" where
  "deriv c Zero = Zero"
| "deriv c Eps = Zero"
| "deriv c (Sym cs) = (if c \<in> set cs then Eps else Zero)"
| "deriv c (Seq r s) =
     (if nullable r then rx_alt (rx_seq (deriv c r) s) (deriv c s) else rx_seq (deriv c r) s)"
| "deriv c (Alt r s) = rx_alt (deriv c r) (deriv c s)"
| "deriv c (Star r) = rx_seq (deriv c r) (Star r)"

definition rx_match :: "rx \<Rightarrow> string \<Rightarrow> bool" where
  "rx_match r s = nullable (foldl (\<lambda>r c. deriv c r) r s)"

definition rx_seqs :: "rx list \<Rightarrow> rx" where
  "rx_seqs rs = foldr Seq rs Eps"

definition rx_alts :: "rx list \<Rightarrow> rx" where
  "rx_alts rs = foldr Alt rs Zero"

definition rx_lit :: "string \<Rightarrow> rx" where
  "rx_lit s = rx_seqs (map (\<lambda>c. Sym [c]) s)"

definition rx_opt :: "rx \<Rightarrow> rx" where
  "rx_opt r = Alt r Eps"

definition rx_plus :: "rx \<Rightarrow> rx" where
  "rx_plus r = Seq r (Star r)"

definition rx_digit :: rx where
  "rx_digit = Sym ''0123456789''"

definition rx_digit_us :: rx where
  "rx_digit_us = Sym ''0123456789_''"

definition rx_sign :: rx where
  "rx_sign = Sym ''-+''"

definition rx_exp :: rx where
  "rx_exp = rx_seqs [Sym ''eE'', Sym ''-+'', rx_plus rx_digit]"

definition rx_sexagesimal :: rx where
  "rx_sexagesimal = rx_plus (rx_seqs [Sym '':'', rx_opt (Sym ''012345''), rx_digit])"

definition float_rx :: rx where
  "float_rx = rx_alts
     [rx_seqs [rx_opt rx_sign, rx_digit, Star rx_digit_us, Sym ''.'', Star rx_digit_us, rx_opt rx_exp],
      rx_seqs [Sym ''.'', rx_digit, Star rx_digit_us, rx_opt rx_exp],
      rx_seqs [rx_opt rx_sign, rx_digit, Star rx_digit_us, rx_sexagesimal, Sym ''.'', Star rx_digit_us],
      rx_seqs [rx_opt rx_sign, Sym ''.'', rx_alts [rx_lit ''inf'', rx_lit ''Inf'', rx_lit ''INF'']],
      rx_seqs [Sym ''.'', rx_alts [rx_lit ''nan'', rx_lit ''NaN'', rx_lit ''NAN'']]]"

definition int_rx :: rx where
  "int_rx = rx_alts
     [rx_seqs [rx_opt rx_sign, rx_lit ''0b'', rx_plus (Sym ''01_'')],
      rx_seqs [rx_opt rx_sign, rx_lit ''0'', rx_plus (Sym ''01234567_'')],
      rx_seqs [rx_opt rx_sign, Alt (rx_lit ''0'') (Seq (Sym ''123456789'') (Star rx_digit_us))],
      rx_seqs [rx_opt rx_sign, rx_lit ''0x'', rx_plus (Sym ''0123456789abcdefABCDEF_'')],
      rx_seqs [rx_opt rx_sign, Sym ''123456789'', Star rx_digit_us, rx_sexagesimal]]"

definition timestamp_rx :: rx where
  "timestamp_rx = rx_alts
     [rx_seqs [rx_digit, rx_digit, rx_digit, rx_digit, Sym ''-'', rx_digit, rx_digit,
            Sym ''-'', rx_digit, rx_digit],
      rx_seqs [rx_digit, rx_digit, rx_digit, rx_digit, Sym ''-'', rx_digit, rx_opt rx_digit,
            Sym ''-'', rx_digit, rx_opt rx_digit,
            Alt (Sym ''Tt'') (rx_plus (Sym [CHR '' '', CHR 0x09])),
            rx_digit, rx_opt rx_digit, Sym '':'', rx_digit, rx_digit, Sym '':'', rx_digit, rx_digit,
            rx_opt (Seq (Sym ''.'') (Star rx_digit)),
            rx_opt (rx_seqs [Star (Sym [CHR '' '', CHR 0x09]),
                       Alt (rx_lit ''Z'')
                           (rx_seqs [rx_sign, rx_digit, rx_opt rx_digit,
                                  rx_opt (rx_seqs [Sym '':'', rx_digit, rx_digit])])])]]"

definition yaml_bool_words :: "string list" where
  "yaml_bool_words = [''yes'', ''Yes'', ''YES'', ''no'', ''No'', ''NO'', ''true'', ''True'', ''TRUE'',
                      ''false'', ''False'', ''FALSE'', ''on'', ''On'', ''ON'', ''off'', ''Off'', ''OFF'']"

definition yaml_null_words :: "string list" where
  "yaml_null_words = [''~'', ''null'', ''Null'', ''NULL'', '''']"

definition resolves_to_str :: "string \<Rightarrow> bool" where
  "resolves_to_str s =
     (s \<notin> set yaml_bool_words \<and> s \<notin> set yaml_null_words \<and> s \<noteq> ''<<'' \<and> s \<noteq> ''=''
      \<and> \<not> rx_match float_rx s \<and> \<not> rx_match int_rx s \<and> \<not> rx_match timestamp_rx s)"

subsection \<open>The style of a string\<close>

text \<open>
  \<open>analyze_scalar\<close> for a string of printable characters: what forbids the plain
  style in a block mapping.
\<close>

definition leading_indicator :: "char \<Rightarrow> bool" where
  "leading_indicator c = (c \<in> set (''#,[]{}&*!|>%@`'' @ [CHR 0x27, CHR 0x22]))"

definition before_space :: "string \<Rightarrow> bool" where
  "before_space cs = (case cs of [] \<Rightarrow> True | d # _ \<Rightarrow> d = CHR '' '')"

fun inner_plain :: "char \<Rightarrow> string \<Rightarrow> bool" where
  "inner_plain p [] = True"
| "inner_plain p (c # cs) =
     (\<not> (c = CHR '':'' \<and> before_space cs) \<and> \<not> (c = CHR ''#'' \<and> p = CHR '' '')
      \<and> inner_plain c cs)"

definition block_plain_ok :: "string \<Rightarrow> bool" where
  "block_plain_ok s =
     (case s of
        [] \<Rightarrow> False
      | c # cs \<Rightarrow>
          c \<noteq> CHR '' '' \<and> last s \<noteq> CHR '' ''
          \<and> \<not> startswith s ''---'' \<and> \<not> startswith s ''...''
          \<and> \<not> leading_indicator c
          \<and> \<not> ((c = CHR ''?'' \<or> c = CHR '':'' \<or> c = CHR ''-'') \<and> before_space cs)
          \<and> inner_plain c cs)"

definition single_quoted :: "string \<Rightarrow> string" where
  "single_quoted s =
     [CHR 0x27] @ concat (map (\<lambda>c. if c = CHR 0x27 then [c, c] else [c]) s) @ [CHR 0x27]"

text \<open>
  The text of a string that starts at column \<open>col\<close>. A key is never folded, but it
  must be a simple key: not empty and shorter than 128 characters.
\<close>

definition yaml_str :: "nat \<Rightarrow> bool \<Rightarrow> string \<Rightarrow> string option" where
  "yaml_str col is_key s =
     (case utf8_decode s of
        None \<Rightarrow> None
      | Some cps \<Rightarrow>
          if \<not> list_all yaml_printable cps then None
          else if is_key \<and> (s = [] \<or> 128 \<le> length cps) then None
          else if block_plain_ok s \<and> resolves_to_str s
          then (if \<not> is_key \<and> 80 < col + length cps then None else Some s)
          else if \<not> is_key
                  \<and> 80 < col + 1 + length cps + py_count s (CHR '' '') + py_count s (CHR 0x27)
          then None
          else Some (single_quoted s))"

text \<open>The text of a float, from its \<open>repr\<close>.\<close>

definition yaml_float :: "string \<Rightarrow> string" where
  "yaml_float t =
     (if t = ''nan'' then ''.nan''
      else if t = ''inf'' then ''.inf''
      else if t = ''-inf'' then ''-.inf''
      else (let v = map lower t in
            if CHR ''.'' \<notin> set v \<and> CHR ''e'' \<in> set v
            then takeWhile (\<lambda>c. c \<noteq> CHR ''e'') v @ ''.0e'' @ tl (dropWhile (\<lambda>c. c \<noteq> CHR ''e'') v)
            else v))"

definition yaml_scalar :: "nat \<Rightarrow> pyval \<Rightarrow> string option" where
  "yaml_scalar col v =
     (case v of
        PNone \<Rightarrow> Some ''null''
      | PBool b \<Rightarrow> Some (if b then ''true'' else ''false'')
      | PInt i \<Rightarrow> Some (int_str i)
      | PFloat t \<Rightarrow> Some (yaml_float t)
      | PStr s \<Rightarrow> yaml_str col False s
      | _ \<Rightarrow> None)"

definition yaml_item :: "string \<times> pyval \<Rightarrow> string option" where
  "yaml_item kv =
     (case kv of (k, v) \<Rightarrow>
        (case yaml_str 2 True k of
           None \<Rightarrow> None
         | Some kt \<Rightarrow>
             (case yaml_scalar (2 + length (the (utf8_decode kt)) + 2) v of
                None \<Rightarrow> None
              | Some vt \<Rightarrow> Some (kt @ '': '' @ vt))))"

fun yaml_block :: "string list \<Rightarrow> string" where
  "yaml_block [] = ''- {}'' @ [CHR 0x0A]"
| "yaml_block (l # ls) = ''- '' @ l @ [CHR 0x0A] @ concat (map (\<lambda>x. ''  '' @ x @ [CHR 0x0A]) ls)"

fun those_items :: "string option list \<Rightarrow> string list option" where
  "those_items [] = Some []"
| "those_items (x # xs) =
     (case x of
        None \<Rightarrow> None
      | Some l \<Rightarrow> (case those_items xs of None \<Rightarrow> None | Some ls \<Rightarrow> Some (l # ls)))"

definition yaml_mapping :: "pyval \<Rightarrow> pyexc + string" where
  "yaml_mapping r =
     (case dict_items r of
        None \<Rightarrow> Inl outside_model
      | Some kvs \<Rightarrow>
          if \<not> distinct (map fst kvs) then Inl outside_model
          else (case those_items (map yaml_item (sort_key fst kvs)) of
                  None \<Rightarrow> Inl outside_model
                | Some ls \<Rightarrow> Inr (yaml_block ls)))"

definition yaml_dump_model :: "pyval \<Rightarrow> pyexc + string" where
  "yaml_dump_model data =
     (case data of
        PList recs \<Rightarrow>
          (if recs = [] then Inr (''[]'' @ [CHR 0x0A])
           else (case collect (map yaml_mapping recs) of
                   Inl e \<Rightarrow> Inl e
                 | Inr blocks \<Rightarrow> Inr (concat blocks)))
      | _ \<Rightarrow> Inl outside_model)"

section \<open>Models of \<open>repr\<close>, \<open>ET.tostring\<close> and \<open>minidom\<close>\<close>

text \<open>
  \<open>repr\<close> of a value, used by \<open>str\<close> on lists and dictionaries. Bytes above
  \<open>0x7f\<close> are taken to belong to printable characters.
\<close>

definition hex_digit :: "nat \<Rightarrow> char" where
  "hex_digit n = (if n < 10 then char_of (48 + n) else char_of (87 + n))"

definition repr_char :: "char \<Rightarrow> char \<Rightarrow> string" where
  "repr_char q c =
     (let n = of_char c :: nat in
      if c = CHR 0x5C then [CHR 0x5C, CHR 0x5C]
      else if c = q then [CHR 0x5C, q]
      else if c = CHR 0x0A then [CHR 0x5C, CHR ''n'']
      else if c = CHR 0x0D then [CHR 0x5C, CHR ''r'']
      else if c = CHR 0x09 then [CHR 0x5C, CHR ''t'']
      else if n < 32 \<or> n = 127 then [CHR 0x5C, CHR ''x'', hex_digit (n div 16), hex_digit (n mod 16)]
      else [c])"

definition repr_str :: "string \<Rightarrow> string" where
  "repr_str s =
     (let q = (if CHR 0x27 \<in> set s \<and> CHR 0x22 \<notin> set s then CHR 0x22 else CHR 0x27)
      in [q] @ concat (map (repr_char q) s) @ [q])"

fun py_repr_model :: "pyval \<Rightarrow> string" where
  "py_repr_model PNone = ''None''"
| "py_repr_model (PBool b) = (if b then ''True'' else ''False'')"
| "py_repr_model (PInt i) = int_str i"
| "py_repr_model (PFloat t) = t"
| "py_repr_model (PStr s) = repr_str s"
| "py_repr_model (PList vs) = ''['' @ join '', '' (map py_repr_model vs) @ '']''"
| "py_repr_model (PDict kvs) =
     ''{'' @ join '', '' (map (\<lambda>kv. repr_str (fst kv) @ '': '' @ py_repr_model (snd kv)) kvs) @ ''}''"

text \<open>
  \<open>ET.tostring(root, encoding='unicode')\<close>: a tag is written as it stands, text is
  escaped, an element without text and children is written in the short form. Tags that
  start with a brace are namespace names and are outside the model.
\<close>

definition escape_cdata :: "string \<Rightarrow> string" where
  "escape_cdata s =
     concat (map (\<lambda>c. if c = CHR ''&'' then ''&amp;''
                       else if c = CHR ''<'' then ''&lt;''
                       else if c = CHR ''>'' then ''&gt;''
                       else [c]) s)"

fun serialize_xml :: "element \<Rightarrow> string" where
  "serialize_xml (Element t txt kids) =
     (if (txt = None \<or> txt = Some []) \<and> kids = []
      then ''<'' @ t @ '' />''
      else ''<'' @ t @ ''>'' @ escape_cdata (case txt of None \<Rightarrow> [] | Some s \<Rightarrow> s)
           @ concat (map serialize_xml kids) @ ''</'' @ t @ ''>'')"

fun brace_free :: "element \<Rightarrow> bool" where
  "brace_free (Element t txt kids) = (\<not> startswith t ''{'' \<and> list_all brace_free kids)"

definition et_tostring_model :: "element \<Rightarrow> pyexc + string" where
  "et_tostring_model root = (if brace_free root then Inr (serialize_xml root) else Inl outside_model)"


text \<open>
  \<open>xml.dom.minidom.parseString\<close> followed by \<open>toprettyxml\<close>, on the texts the
  serialiser above produces: elements without attributes whose content is either text or
  child elements, names made of ASCII letters, digits, underscore, hyphen and dot. A name
  that starts with a digit, a hyphen or a dot is not well-formed and the parser raises.
  The printer writes the XML declaration, then every element on its own line, indented
  by its depth; an element with text only is written on one line, an empty one in the
  short form.
\<close>

definition name_start :: "char \<Rightarrow> bool" where
  "name_start c = (is_letter c \<or> c = CHR ''_'')"

definition name_char :: "char \<Rightarrow> bool" where
  "name_char c = (is_letter c \<or> is_digit c \<or> c = CHR ''_'' \<or> c = CHR ''-'' \<or> c = CHR ''.'')"

definition xml_name :: "string \<Rightarrow> bool" where
  "xml_name s = (case s of [] \<Rightarrow> False | c # _ \<Rightarrow> name_start c \<and> list_all name_char s)"

definition bad_name :: "string \<Rightarrow> bool" where
  "bad_name s = (case s of [] \<Rightarrow> False | c # _ \<Rightarrow> \<not> name_start c \<and> list_all name_char s)"

definition expat_error :: pyexc where
  "expat_error = OtherException ''not well-formed (invalid token)''"

fun unescape :: "string \<Rightarrow> string option" where
  "unescape [] = Some []"
| "unescape (c # cs) =
     (if c = CHR ''&'' then
        (if startswith cs ''amp;'' then map_option ((#) (CHR ''&'')) (unescape (drop 4 cs))
         else if startswith cs ''lt;'' then map_option ((#) (CHR ''<'')) (unescape (drop 3 cs))
         else if startswith cs ''gt;'' then map_option ((#) (CHR ''>'')) (unescape (drop 3 cs))
         else None)
      else if 32 \<le> (of_char c :: nat) \<and> (of_char c :: nat) \<le> 126
              \<and> c \<noteq> CHR 0x22 \<and> c \<noteq> CHR ''<'' \<and> c \<noteq> CHR ''>''
      then map_option ((#) c) (unescape cs)
      else None)"

definition tag_end :: "char \<Rightarrow> bool" where
  "tag_end c = (c = CHR ''>'' \<or> c = CHR '' '' \<or> c = CHR ''/'')"

definition close_tag :: "string \<Rightarrow> element \<Rightarrow> string \<Rightarrow> pyexc + element \<times> string" where
  "close_tag name el r =
     (if startswith r (''</'' @ name @ ''>'') then Inr (el, drop (length name + 3) r)
      else Inl outside_model)"

definition opens_element :: "string \<Rightarrow> bool" where
  "opens_element s = (startswith s ''<'' \<and> \<not> startswith s ''</'')"

fun xml_elem :: "nat \<Rightarrow> string \<Rightarrow> pyexc + element \<times> string"
  and xml_kids :: "nat \<Rightarrow> string \<Rightarrow> pyexc + element list \<times> string"
where
  "xml_elem 0 s = Inl outside_model"
| "xml_elem (Suc n) [] = Inl outside_model"
| "xml_elem (Suc n) (c # r) =
     (if c \<noteq> CHR ''<'' then Inl outside_model
      else
        (let name = takeWhile (\<lambda>x. \<not> tag_end x) r;
             rest = dropWhile (\<lambda>x. \<not> tag_end x) r
         in if bad_name name then Inl expat_error
            else if \<not> xml_name name then Inl outside_model
            else if startswith rest '' />'' then Inr (Element name None [], drop 3 rest)
            else if startswith rest ''>'' then
              (let body = drop 1 rest in
               if opens_element body then
                 (case xml_kids n body of
                    Inl e \<Rightarrow> Inl e
                  | Inr (kids, r2) \<Rightarrow> close_tag name (Element name None kids) r2)
               else
                 (case unescape (takeWhile (\<lambda>x. x \<noteq> CHR ''<'') body) of
                    None \<Rightarrow> Inl outside_model
                  | Some t \<Rightarrow>
                      close_tag name (Element name (Some t) [])
                        (dropWhile (\<lambda>x. x \<noteq> CHR ''<'') body)))
            else Inl outside_model))"
| "xml_kids 0 s = Inl outside_model"
| "xml_kids (Suc n) s =
     (if opens_element s then
        (case xml_elem n s of
           Inl e \<Rightarrow> Inl e
         | Inr (k, r) \<Rightarrow>
             (case xml_kids n r of
                Inl e \<Rightarrow> Inl e
              | Inr (ks, r') \<Rightarrow> Inr (k # ks, r')))
      else Inr ([], s))"

definition xml_parse :: "string \<Rightarrow> pyexc + element" where
  "xml_parse s =
     (case xml_elem (Suc (length s)) s of
        Inl e \<Rightarrow> Inl e
      | Inr (el, r) \<Rightarrow> if r = [] then Inr el else Inl outside_model)"

fun writexml :: "string \<Rightarrow> string \<Rightarrow> element \<Rightarrow> string" where
  "writexml indent addindent (Element t txt kids) =
     (if kids \<noteq> [] then
        indent @ ''<'' @ t @ ''>'' @ [CHR 0x0A]
        @ concat (map (writexml (indent @ addindent) addindent) kids)
        @ indent @ ''</'' @ t @ ''>'' @ [CHR 0x0A]
      else if txt = None \<or> txt = Some [] then indent @ ''<'' @ t @ ''/>'' @ [CHR 0x0A]
      else indent @ ''<'' @ t @ ''>'' @ escape_cdata (the txt) @ ''</'' @ t @ ''>'' @ [CHR 0x0A])"

definition minidom_model :: "string \<Rightarrow> string \<Rightarrow> pyexc + string" where
  "minidom_model rough indent =
     (case xml_parse rough of
        Inl e \<Rightarrow> Inl e
      | Inr root \<Rightarrow>
          Inr (''<?xml version='' @ [CHR 0x22] @ ''1.0'' @ [CHR 0x22] @ '' ?>'' @ [CHR 0x0A]
               @ writexml [] indent root))"

section \<open>A model of \<open>json.dumps\<close>\<close>

text \<open>
  \<open>json.dumps(data, indent=2, ensure_ascii=False)\<close>: strings are quoted, with the
  quote, the backslash and the control characters escaped and everything else left as it
  is; a non-empty list or dictionary puts every item on its own line, indented by two
  spaces per level, with \<open>,\<close> between items and \<open>: \<close> after a key.
\<close>

definition json_escape_char :: "char \<Rightarrow> string" where
  "json_escape_char c =
     (let n = of_char c :: nat in
      if c = CHR 0x22 then [CHR 0x5C, CHR 0x22]
      else if c = CHR 0x5C then [CHR 0x5C, CHR 0x5C]
      else if c = CHR 0x0A then [CHR 0x5C, CHR ''n'']
      else if c = CHR 0x0D then [CHR 0x5C, CHR ''r'']
      else if c = CHR 0x09 then [CHR 0x5C, CHR ''t'']
      else if c = CHR 0x08 then [CHR 0x5C, CHR ''b'']
      else if c = CHR 0x0C then [CHR 0x5C, CHR ''f'']
      else if n < 32 then [CHR 0x5C, CHR ''u'', CHR ''0'', CHR ''0'', hex_digit (n div 16), hex_digit (n mod 16)]
      else [c])"

definition json_string :: "string \<Rightarrow> string" where
  "json_string s = [CHR 0x22] @ concat (map json_escape_char s) @ [CHR 0x22]"

definition newline_indent :: "nat \<Rightarrow> string" where
  "newline_indent level = CHR 0x0A # replicate (2 * level) (CHR '' '')"

definition json_float :: "string \<Rightarrow> string" where
  "json_float t =
     (if t = ''nan'' then ''NaN''
      else if t = ''inf'' then ''Infinity''
      else if t = ''-inf'' then ''-Infinity''
      else t)"

fun dumps_at :: "nat \<Rightarrow> pyval \<Rightarrow> string" where
  "dumps_at level PNone = ''null''"
| "dumps_at level (PBool b) = (if b then ''true'' else ''false'')"
| "dumps_at level (PInt i) = int_str i"
| "dumps_at level (PFloat t) = json_float t"
| "dumps_at level (PStr s) = json_string s"
| "dumps_at level (PList vs) =
     (if vs = [] then ''[]''
      else ''['' @ newline_indent (level + 1)
           @ join ('','' @ newline_indent (level + 1)) (map (dumps_at (level + 1)) vs)
           @ newline_indent level @ '']'')"
| "dumps_at level (PDict kvs) =
     (if kvs = [] then ''{}''
      else ''{'' @ newline_indent (level + 1)
           @ join ('','' @ newline_indent (level + 1))
               (map (\<lambda>kv. json_string (fst kv) @ '': '' @ dumps_at (level + 1) (snd kv)) kvs)
           @ newline_indent level @ ''}'')"

definition py_json_dumps :: "pyval \<Rightarrow> pyexc + string" where
  "py_json_dumps data = Inr (dumps_at 0 data)"

section \<open>What the XML and YAML decoders reject\<close>

text \<open>
  Two facts about the decoders, as far as the runs below need them. An XML document
  starts with \<open><\<close> (after optional white space or a byte-order mark); a text whose
  first character is anything else is a syntax error at line 1, column 0. A YAML text
  made only of letters, commas, tabs and line feeds that starts with a letter is a plain
  scalar up to its first tab, and the tab cannot start the next token: the scanner
  raises. The position lines of the scanner's message are left out. Every other text is
  outside these two models.
\<close>

definition et_fromstring_model :: "string \<Rightarrow> pyexc + element" where
  "et_fromstring_model s =
     (case s of
        [] \<Rightarrow> Inl (XMLParseError ''no element found: line 1, column 0'')
      | c # _ \<Rightarrow>
          if c \<noteq> CHR ''<'' \<and> \<not> py_isspace c \<and> c \<noteq> CHR 0xEF
          then Inl (XMLParseError ''syntax error: line 1, column 0'')
          else Inl outside_model)"

definition tab_token_message :: string where
  "tab_token_message = ''while scanning for the next token'' @ [CHR 0x0A]
                 @ ''found character '' @ [CHR 0x27, CHR 0x5C, CHR ''t'', CHR 0x27]
                 @ '' that cannot start any token''"

definition yaml_safe_load_model :: "string \<Rightarrow> pyexc + pyval" where
  "yaml_safe_load_model s =
     (case s of
        [] \<Rightarrow> Inl outside_model
      | c # _ \<Rightarrow>
          if is_letter c
             \<and> list_all (\<lambda>x. is_letter x \<or> x = CHR '','' \<or> x = CHR 0x09 \<or> x = CHR 0x0A) s
             \<and> CHR 0x09 \<in> set s
          then Inl (YAMLError tab_token_message)
          else Inl outside_model)"

text \<open>
  A text that no parser accepts: as CSV and as TSV its third line is longer than the
  first two, and it is neither JSON nor XML nor YAML.
\<close>

definition hopeless_text :: string where
  "hopeless_text = ''a'' @ [CHR 0x0A] @ ''b,c'' @ [CHR 0x09] @ ''d'' @ [CHR 0x0A]
                   @ ''e,f,g'' @ [CHR 0x09] @ ''h'' @ [CHR 0x09] @ ''i''"

section \<open>The library instance used for concrete runs\<close>

text \<open>
  The text of a \<open>JSONDecodeError\<close> is \<open>msg: line L column C (char P)\<close>, the position
  counted in characters. Two errors are modelled: \<open>Expecting value\<close>, when the text
  after its leading white space does not start a value, and \<open>Extra data\<close>, when
  something follows the value. An error raised inside a string, an array or an object has
  another message and is outside the model.
\<close>

definition char_count :: "string \<Rightarrow> nat" where
  "char_count s = length (filter (\<lambda>c. \<not> (0x80 \<le> (of_char c :: nat) \<and> (of_char c :: nat) < 0xC0)) s)"

definition json_error :: "string \<Rightarrow> string \<Rightarrow> nat \<Rightarrow> pyexc" where
  "json_error msg doc n =
     (let pre = take n doc
      in JSONDecodeError
           (msg @ '': line '' @ nat_digits (py_count pre (CHR 0x0A) + 1)
            @ '' column '' @ nat_digits (char_count (takeWhile (\<lambda>c. c \<noteq> CHR 0x0A) (rev pre)) + 1)
            @ '' (char '' @ nat_digits (char_count pre) @ '')''))"

definition json_failure :: "string \<Rightarrow> pyexc" where
  "json_failure s =
     (let t = skip_ws s in
      case scan_value (Suc (length s)) t of
        Some (v, r) \<Rightarrow> json_error ''Extra data'' s (length s - length (skip_ws r))
      | None \<Rightarrow>
          (case t of
             [] \<Rightarrow> json_error ''Expecting value'' s (length s)
           | c # _ \<Rightarrow>
               if c = CHR 0x22 \<or> c = CHR ''{'' \<or> c = CHR ''[''
               then outside_model
               else json_error ''Expecting value'' s (length s - length t)))"

definition py_json_loads :: "string \<Rightarrow> pyexc + pyval" where
  "py_json_loads s =
     (case py_json_decode s of
        Some v \<Rightarrow> Inr v
      | None \<Rightarrow> Inl (json_failure s))"

definition py_libs :: "frame pylib" where
  "py_libs =
     \<lparr> json_loads = py_json_loads,
       read_csv = pandas_read_csv,
       to_dict_records = frame_to_dict_records,
       et_fromstring = et_fromstring_model,
       yaml_safe_load = yaml_safe_load_model,
       data_frame = pandas_data_frame,
       json_dumps = py_json_dumps,
       to_csv = pandas_to_csv,
       yaml_dump = yaml_dump_model,
       et_tostring = et_tostring_model,
       minidom_toprettyxml = minidom_model,
       py_repr = py_repr_model \<rparr>"


text \<open>The record set \<open>[{"a": 1, "b": 2}, {"a": 3}]\<close>, whose second record lacks \<open>b\<close>.\<close>

definition two_records :: pyval where
  "two_records = PList [PDict [(''a'', PInt 1), (''b'', PInt 2)], PDict [(''a'', PInt 3)]]"

text \<open>
  What \<open>main\<close> and the CSV generator do with validated data: build the data frame,
  then write it.
\<close>

definition records_to_csv :: "'df pylib \<Rightarrow> pyval \<Rightarrow> pyexc + generated option" where
  "records_to_csv L data =
     (case new_process L data of
        Inl e \<Rightarrow> Inl e
      | Inr (None, shown) \<Rightarrow> Inr None
      | Inr (Some (processed_data, df), shown) \<Rightarrow>
          (case generate_csv_output L df of
             Inl e \<Rightarrow> Inl e
           | Inr out \<Rightarrow> Inr (Some out)))"


text \<open>A record with a space in a field name and a missing value.\<close>

definition spaced_record :: "(string \<times> pyval) list list" where
  "spaced_record = [[(''a b'', PInt 1), (''c'', PNone)]]"

section \<open>The format detector is total\<close>

lemma detect_delimited_tags:
  "detect_delimited content \<in> {''TSV'', ''CSV'', ''Unknown''}"
  by (simp add: detect_delimited_def Let_def)

text \<open>
  Claim C9. For every input text, and whatever the JSON, XML and YAML decoders do with it
  (return or raise), \<open>detect_format_from_content\<close> returns one of the six tags JSON,
  XML, YAML, CSV, TSV, Unknown: no exception leaves it, and Unknown is the last resort.
\<close>

theorem detect_format_total:
  "detect_format_from_content L raw \<in> {''JSON'', ''XML'', ''YAML'', ''CSV'', ''TSV'', ''Unknown''}"
proof -
  have "detect_delimited (py_strip raw) \<in> {''TSV'', ''CSV'', ''Unknown''}"
    by (rule detect_delimited_tags)
  then show ?thesis
    unfolding detect_format_from_content_def Let_def by auto
qed

section \<open>The JSON parser and the validation after it\<close>

lemma decode_null: "py_json_decode ''null'' = Some PNone"
  by code_simp

text \<open>
  Claim C10. When the text is valid JSON that decodes to \<open>null\<close>, \<open>parse_json_data\<close>
  returns \<open>None\<close> both as data and as error; the caller's test \<open>data is not None\<close>
  takes the failure branch, whose message has only the text \<open>None\<close> where the error
  would be, and the validation block is skipped.
\<close>

theorem json_null_no_data_no_error:
  assumes "json_loads L content = Inr PNone"
  shows "parse_json_data L content = Inr (PNone, None)
       \<and> new_paste L ''JSON'' content = Inr ((PNone, None), [Error (cross_mark @ ''None'')])
       \<and> new_process L PNone = Inr (None, [])"
  using assms
  by (simp add: parse_json_data_def new_paste_def process_data_with_format_def fmt_error_def
      new_process_def)

theorem json_null_no_data_no_error_witness:
  "json_loads py_libs ''null'' = Inr PNone
   \<and> parse_json_data py_libs ''null'' = Inr (PNone, None)
   \<and> new_paste py_libs ''JSON'' ''null'' = Inr ((PNone, None), [Error (cross_mark @ ''None'')])
   \<and> new_process py_libs PNone = Inr (None, [])"
proof -
  have h: "json_loads py_libs ''null'' = Inr PNone"
    by (simp add: py_libs_def py_json_loads_def decode_null)
  show ?thesis
    using h json_null_no_data_no_error [OF h] by simp
qed

lemma record_list_shape:
  "is_record_list data = (\<exists>kvs rest. data = PList (PDict kvs # rest))"
proof (cases data)
  case (PList xs)
  then show ?thesis
    by (cases xs) (auto simp: is_record_list_def split: pyval.splits)
qed (simp_all add: is_record_list_def)

lemma validate_data_shape:
  "fst (validate_data data) = (\<exists>kvs rest. data = PList (PDict kvs # rest))"
proof (cases data)
  case (PList xs)
  then show ?thesis
    by (cases xs) (auto simp: validate_data_def split: pyval.splits)
qed (simp_all add: validate_data_def)

text \<open>
  Claim C3, as the code has it. The JSON parser succeeds exactly when the text decodes,
  whatever the decoded shape, and hands the decoded value on unchanged: a bare object is
  not wrapped, a scalar is not an error. The shape is tested afterwards, by
  \<open>validate_data\<close> in converter.py and by the list test of \<open>main\<close> in new_converter.py,
  which accept exactly a list whose first element is an object.
\<close>

theorem json_parser_returns_decoded_value:
  "(parse_json_data L content = Inr (data, None)) = (json_loads L content = Inr data)
   \<and> (parse_json_file L content = Inr (data, None)) = (json_loads L content = Inr data)
   \<and> fst (validate_data data) = (\<exists>kvs rest. data = PList (PDict kvs # rest))
   \<and> is_record_list data = (\<exists>kvs rest. data = PList (PDict kvs # rest))"
proof -
  have a: "(parse_json_data L content = Inr (data, None)) = (json_loads L content = Inr data)"
    by (auto simp: parse_json_data_def split: sum.splits pyexc.splits)
  have b: "(parse_json_file L content = Inr (data, None)) = (json_loads L content = Inr data)"
    by (auto simp: parse_json_file_def split: sum.splits pyexc.splits)
  show ?thesis
    using a b validate_data_shape [of data] record_list_shape [of data] by blast
qed

text \<open>
  The claim as the specification words it fails: the scalar text \<open>5\<close> is parsed without
  an error, and the bare object \<open>{"a": 1}\<close> comes back as the object itself, not as a
  one-element list; validation then rejects both as not being a list.
\<close>

theorem json_parser_scalar_and_bare_object:
  "parse_json_data py_libs ''5'' = Inr (PInt 5, None)
   \<and> parse_json_data py_libs (''{'' @ [CHR 0x22] @ ''a'' @ [CHR 0x22] @ '': 1}'')
       = Inr (PDict [(''a'', PInt 1)], None)
   \<and> validate_data (PDict [(''a'', PInt 1)]) = (False, ''Data must be an array/list of objects'')"
  by code_simp

section \<open>Ragged rows in CSV input\<close>





section \<open>Missing fields in CSV output\<close>

text \<open>
  Claim C2, as the code has it. Converting \<open>[{"a": 1, "b": 2}, {"a": 3}]\<close> to CSV
  succeeds; the output is the header \<open>a,b\<close> and the rows \<open>1,2.0\<close> and \<open>3,\<close>. The
  missing field is written as the empty string. Column \<open>b\<close> has a missing value, so the
  data frame holds it as floats and its \<open>2\<close> is written \<open>2.0\<close>; column \<open>a\<close> is written
  unchanged.
\<close>

theorem missing_field_csv_rows:
  "records_to_csv py_libs two_records
     = Inr (Some (''a,b'' @ [CHR 0x0A] @ ''1,2.0'' @ [CHR 0x0A] @ ''3,'' @ [CHR 0x0A],
                  ''text/csv'', ''.csv''))"
  by code_simp

text \<open>
  The claim as the specification words it fails: the generated text is not the header
  followed by \<open>1,2\<close> and \<open>3,\<close>, with or without a final line feed.
\<close>

theorem missing_field_csv_not_unchanged:
  "records_to_csv py_libs two_records
     \<noteq> Inr (Some (''a,b'' @ [CHR 0x0A] @ ''1,2'' @ [CHR 0x0A] @ ''3,'' @ [CHR 0x0A],
                  ''text/csv'', ''.csv''))
   \<and> records_to_csv py_libs two_records
     \<noteq> Inr (Some (''a,b'' @ [CHR 0x0A] @ ''1,2'' @ [CHR 0x0A] @ ''3,'',
                  ''text/csv'', ''.csv''))"
  by code_simp

section \<open>Duplicate header names in CSV input\<close>






section \<open>The fallback over all parsers\<close>

text \<open>
  Claim C4, as the code has it. When detection returns Unknown and the five parsers
  return, the pasted-data branch yields the result of the first of JSON, CSV, TSV, XML,
  YAML, in that order, whose data is not \<open>None\<close>; when all five fail it yields the
  result of the last one, YAML, and shows that one error after the warning. The loop
  overwrites \<open>error\<close> at every turn, so the earlier errors are gone.
\<close>

theorem fallback_first_success_last_error:
  assumes "detect_format_from_content L t = ''Unknown''"
    and "parse_json_file L t = Inr pj"
    and "parse_csv_file L t (CHR '','') = Inr pc"
    and "parse_tsv_file L t = Inr pt"
    and "parse_xml_file L t = Inr px"
    and "parse_yaml_file L t = Inr py"
  shows "map_sum id fst (parse_pasted L t)
           = Inr (if fst pj \<noteq> PNone then pj
                  else if fst pc \<noteq> PNone then pc
                  else if fst pt \<noteq> PNone then pt
                  else if fst px \<noteq> PNone then px
                  else py)
         \<and> (fst pj = PNone \<and> fst pc = PNone \<and> fst pt = PNone \<and> fst px = PNone \<and> fst py = PNone
              \<longrightarrow> (\<exists>w. parse_pasted L t
                         = Inr (py, [Warning w, Error (cross_mark @ fmt_error (snd py))])))"
proof -
  obtain dj ej where pj: "pj = (dj, ej)" by (cases pj)
  obtain dc ec where pc: "pc = (dc, ec)" by (cases pc)
  obtain dt et where pt: "pt = (dt, et)" by (cases pt)
  obtain dx ex where px: "px = (dx, ex)" by (cases px)
  obtain dy ey where py: "py = (dy, ey)" by (cases py)
  show ?thesis
    using assms pj pc pt px py
    by (simp add: parse_pasted_def fallback_parsers_def Let_def)
qed

lemma hopeless_detect: "detect_format_from_content py_libs hopeless_text = ''Unknown''"
  by code_simp

lemma hopeless_json:
  "parse_json_file py_libs hopeless_text
     = Inr (PNone, Some ''Invalid JSON format: Expecting value: line 1 column 1 (char 0)'')"
  by code_simp

lemma hopeless_csv:
  "parse_csv_file py_libs hopeless_text (CHR '','')
     = Inr (PNone, Some (''Error parsing CSV: Error tokenizing data. C error: Expected 2 fields in line 3, saw 3'' @ [CHR 0x0A]))"
  by code_simp

lemma hopeless_tsv:
  "parse_tsv_file py_libs hopeless_text
     = Inr (PNone, Some (''Error parsing CSV: Error tokenizing data. C error: Expected 2 fields in line 3, saw 3'' @ [CHR 0x0A]))"
  by code_simp

lemma hopeless_xml:
  "parse_xml_file py_libs hopeless_text
     = Inr (PNone, Some ''Invalid XML format: syntax error: line 1, column 0'')"
  by code_simp

lemma hopeless_yaml:
  "parse_yaml_file py_libs hopeless_text
     = Inr (PNone, Some (''Invalid YAML format: '' @ tab_token_message))"
  by code_simp

theorem fallback_first_success_last_error_witness:
  "\<exists>w. parse_pasted py_libs hopeless_text
     = Inr ((PNone, Some (''Invalid YAML format: '' @ tab_token_message)),
            [Warning w, Error (cross_mark @ ''Invalid YAML format: '' @ tab_token_message)])"
  using fallback_first_success_last_error
          [OF hopeless_detect hopeless_json hopeless_csv hopeless_tsv hopeless_xml hopeless_yaml]
  by (simp add: fmt_error_def)

text \<open>
  The claim as the specification words it fails: on a text that all five parsers reject,
  one error is shown, and it is the YAML parser's; the messages of the JSON, CSV, TSV and
  XML attempts appear nowhere in it.
\<close>

theorem fallback_reports_one_error:
  "parse_pasted py_libs hopeless_text
     = Inr ((PNone, Some (''Invalid YAML format: '' @ tab_token_message)),
            [Warning unknown_warning,
             Error (cross_mark @ ''Invalid YAML format: '' @ tab_token_message)])
   \<and> \<not> py_in ''Invalid JSON format'' (''Invalid YAML format: '' @ tab_token_message)
   \<and> \<not> py_in ''Error parsing CSV'' (''Invalid YAML format: '' @ tab_token_message)
   \<and> \<not> py_in ''Invalid XML format'' (''Invalid YAML format: '' @ tab_token_message)"
  by code_simp

section \<open>Key order in YAML output\<close>











section \<open>The XML generator\<close>

lemma record_elems_dicts:
  "record_elems L i (map PDict recs)
     = Inr (map (\<lambda>(j, r). Element (''record_'' @ nat_digits (j + 1)) None (map (field_elem L) r))
                (zip [i ..< i + length recs] recs))"
proof (induction recs arbitrary: i)
  case Nil
  then show ?case by simp
next
  case (Cons r recs)
  have "[i ..< i + length (r # recs)] = i # [i + 1 ..< (i + 1) + length recs]"
    by (simp add: upt_rec)
  then show ?case
    using Cons.IH [of "i + 1"] by (simp add: record_elem_def del: nat_digits.simps)
qed

text \<open>
  Claim C7, as the code has it. For every record set (a list of dictionaries) the tree
  the generator builds has the root \<open>data\<close>; its children are \<open>record_1\<close>,
  \<open>record_2\<close>, ... in record order; the children of a record element are its fields in
  field order, named after the field with spaces replaced by underscores, with the text
  \<open>str(value)\<close>, or the empty string for \<open>None\<close>. The output is what
  \<open>toprettyxml\<close> makes of the serialised tree with a two-space indent when minidom
  accepts it, and the serialised tree itself, on one line, when minidom raises.
\<close>

theorem xml_generator_shape:
  assumes "et_tostring L
             (Element ''data'' None
                (map (\<lambda>(j, r). Element (''record_'' @ nat_digits (j + 1)) None (map (field_elem L) r))
                     (zip [0 ..< length recs] recs))) = Inr rough"
  shows "xml_tree L (map PDict recs)
           = Inr (Element ''data'' None
                    (map (\<lambda>(j, r). Element (''record_'' @ nat_digits (j + 1)) None
                                      (map (\<lambda>(k, v). Element (py_replace k (CHR '' '') (CHR ''_''))
                                                         (Some (if v = PNone then [] else py_str L v)) [])
                                           r))
                         (zip [0 ..< length recs] recs)))
         \<and> generate_xml_output L (map PDict recs)
           = Inr (case minidom_toprettyxml L rough ''  '' of Inr pretty \<Rightarrow> pretty | Inl e \<Rightarrow> rough,
                  ''application/xml'', ''.xml'')"
proof -
  have fe: "field_elem L = (\<lambda>(k, v). Element (py_replace k (CHR '' '') (CHR ''_''))
                                            (Some (if v = PNone then [] else py_str L v)) [])"
    by (auto simp: field_elem_def fun_eq_iff)
  have tree: "xml_tree L (map PDict recs)
           = Inr (Element ''data'' None
                    (map (\<lambda>(j, r). Element (''record_'' @ nat_digits (j + 1)) None (map (field_elem L) r))
                         (zip [0 ..< length recs] recs)))"
    using record_elems_dicts [of L 0 recs] by (simp add: xml_tree_def del: nat_digits.simps)
  have out: "generate_xml_output L (map PDict recs)
           = Inr (case minidom_toprettyxml L rough ''  '' of Inr pretty \<Rightarrow> pretty | Inl e \<Rightarrow> rough,
                  ''application/xml'', ''.xml'')"
    using tree assms by (simp add: generate_xml_output_def split: sum.splits del: nat_digits.simps)
  show ?thesis using tree out unfolding fe by simp
qed

lemma spaced_rough:
  "et_tostring py_libs
     (Element ''data'' None
        (map (\<lambda>(j, r). Element (''record_'' @ nat_digits (j + 1)) None (map (field_elem py_libs) r))
             (zip [0 ..< length spaced_record] spaced_record)))
     = Inr ''<data><record_1><a_b>1</a_b><c /></record_1></data>''"
  by code_simp

lemma spaced_pretty:
  "(case minidom_toprettyxml py_libs ''<data><record_1><a_b>1</a_b><c /></record_1></data>'' ''  '' of
      Inr pretty \<Rightarrow> pretty
    | Inl e \<Rightarrow> ''<data><record_1><a_b>1</a_b><c /></record_1></data>'')
   = ''<?xml version='' @ [CHR 0x22] @ ''1.0'' @ [CHR 0x22] @ '' ?>'' @ [CHR 0x0A]
     @ ''<data>'' @ [CHR 0x0A]
     @ ''  <record_1>'' @ [CHR 0x0A]
     @ ''    <a_b>1</a_b>'' @ [CHR 0x0A]
     @ ''    <c/>'' @ [CHR 0x0A]
     @ ''  </record_1>'' @ [CHR 0x0A]
     @ ''</data>'' @ [CHR 0x0A]"
  by code_simp

theorem xml_generator_shape_witness:
  "generate_xml_output py_libs (map PDict spaced_record)
     = Inr (''<?xml version='' @ [CHR 0x22] @ ''1.0'' @ [CHR 0x22] @ '' ?>'' @ [CHR 0x0A]
            @ ''<data>'' @ [CHR 0x0A]
            @ ''  <record_1>'' @ [CHR 0x0A]
            @ ''    <a_b>1</a_b>'' @ [CHR 0x0A]
            @ ''    <c/>'' @ [CHR 0x0A]
            @ ''  </record_1>'' @ [CHR 0x0A]
            @ ''</data>'' @ [CHR 0x0A],
            ''application/xml'', ''.xml'')"
  using xml_generator_shape [OF spaced_rough] spaced_pretty by simp

text \<open>
  The claim as the specification words it fails: a field named \<open>1\<close> gives the element
  \<open><1>\<close>, which minidom rejects, and the generator returns the serialised tree on one
  line, without indentation.
\<close>

theorem xml_not_pretty_for_numeric_field:
  "generate_xml_output py_libs [PDict [(''1'', PStr ''x'')]]
     = Inr (''<data><record_1><1>x</1></record_1></data>'', ''application/xml'', ''.xml'')
   \<and> CHR 0x0A \<notin> set ''<data><record_1><1>x</1></record_1></data>''"
  by code_simp

end
